theory Spec2Isabelle
  imports Complex_Main "HOL-Library.Word" "HOL-Library.AList"
begin

section \<open>JavaScript values\<close>

text \<open>
  A JavaScript string is a sequence of UTF-16 code units; \<open>length\<close>, \<open>slice\<close> and
  \<open>trim\<close> all work on code units. The string literals of the source that occur here
  are ASCII and are written through \<open>lit\<close>.
\<close>

type_synonym jsstring = "16 word list"

definition lit :: "string \<Rightarrow> jsstring" where
  "lit s = map (\<lambda>c. of_nat (of_char c)) s"

text \<open>
  \<open>Array.prototype.slice\<close> and \<open>String.prototype.slice\<close>: a negative index counts
  from the end, and both indices are clipped to the length.
\<close>

definition js_slice :: "int \<Rightarrow> int option \<Rightarrow> 'a list \<Rightarrow> 'a list" where
  "js_slice start end xs =
     (let n = int (length xs);
          k = (if start < 0 then max (n + start) 0 else min start n);
          e = (case end of
                 None \<Rightarrow> n
               | Some e \<Rightarrow> if e < 0 then max (n + e) 0 else min e n)
      in take (nat (e - k)) (drop (nat k) xs))"

text \<open>
  \<open>String.prototype.trim\<close> removes WhiteSpace and LineTerminator code units from both
  ends: TAB, LF, VT, FF, CR, SP, NBSP, U+1680, U+2000 to U+200A, U+2028, U+2029, U+202F,
  U+205F, U+3000 and U+FEFF.
\<close>

definition is_ws :: "16 word \<Rightarrow> bool" where
  "is_ws u =
     (u = 0x9 \<or> u = 0xA \<or> u = 0xB \<or> u = 0xC \<or> u = 0xD \<or> u = 0x20 \<or> u = 0xA0 \<or>
      u = 0x1680 \<or> (0x2000 \<le> u \<and> u \<le> 0x200A) \<or> u = 0x2028 \<or> u = 0x2029 \<or>
      u = 0x202F \<or> u = 0x205F \<or> u = 0x3000 \<or> u = 0xFEFF)"

definition trim :: "jsstring \<Rightarrow> jsstring" where
  "trim s = rev (dropWhile is_ws (rev (dropWhile is_ws s)))"

text \<open>
  A JavaScript number is an IEEE double. Every finite double is a rational, and the
  comparisons and \<open>Number.isInteger\<close> used here are exact on doubles, so a finite number
  is modelled by its rational value; the two infinities and NaN are separate values.
\<close>

datatype jsnum = Finite rat | PosInf | NegInf | NaN

datatype jsval =
    JUndefined
  | JNull
  | JBool bool
  | JNum jsnum
  | JStr jsstring
  | JArr "jsval list"
  | JObj "(jsstring \<times> jsval) list"

text \<open>
  An object is the list of its properties, each key once (a lookup reads the first
  occurrence). Property read \<open>v?.k\<close> on a value: \<open>undefined\<close> unless \<open>v\<close> is an object that
  has \<open>k\<close>.
\<close>

fun field :: "jsval \<Rightarrow> jsstring \<Rightarrow> jsval" where
  "field (JObj fs) k = (case map_of fs k of Some v \<Rightarrow> v | None \<Rightarrow> JUndefined)"
| "field _ k = JUndefined"

fun truthy :: "jsval \<Rightarrow> bool" where
  "truthy JUndefined = False"
| "truthy JNull = False"
| "truthy (JBool b) = b"
| "truthy (JNum n) = (n \<noteq> NaN \<and> n \<noteq> Finite 0)"
| "truthy (JStr s) = (s \<noteq> [])"
| "truthy (JArr _) = True"
| "truthy (JObj _) = True"

text \<open>\<open>a || b\<close> and \<open>a ?? b\<close>.\<close>

definition js_or :: "jsval \<Rightarrow> jsval \<Rightarrow> jsval" where
  "js_or a b = (if truthy a then a else b)"

definition nullish :: "jsval \<Rightarrow> jsval \<Rightarrow> jsval" where
  "nullish a b = (if a = JUndefined \<or> a = JNull then b else a)"

section \<open>The zod schemas\<close>

text \<open>
  The schemas are built from the combinators of the zod library (version 3), modelled here
  by what they do on a parsed JSON value. A zod parser reports issues, each with a code and
  the path of the value it is about, and keeps parsing the other fields of an object and
  the other elements of an array after an issue. A parse is \<open>Inr\<close> of the parsed value when no issue was reported, and \<open>Inl\<close> of all
  the issues, in the order zod reports them, otherwise.
\<close>

datatype pathel = Key jsstring | Idx nat

datatype issue_code = invalid_type | invalid_enum_value | too_small | too_big

type_synonym path = "pathel list"
type_synonym issue = "issue_code \<times> path"
type_synonym 'a parsed = "issue list + 'a"

text \<open>Combining the parse of an object's or array's parts: every part's issues are kept.\<close>

definition ap :: "('a \<Rightarrow> 'b) parsed \<Rightarrow> 'a parsed \<Rightarrow> 'b parsed" where
  "ap f x =
     (case f of
        Inr g \<Rightarrow> (case x of Inr a \<Rightarrow> Inr (g a) | Inl e \<Rightarrow> Inl e)
      | Inl e \<Rightarrow> (case x of Inr a \<Rightarrow> Inl e | Inl e' \<Rightarrow> Inl (e @ e')))"

definition issues_of :: "'a parsed \<Rightarrow> issue list" where
  "issues_of r = (case r of Inl e \<Rightarrow> e | Inr _ \<Rightarrow> [])"

text \<open>\<open>z.string()\<close> and \<open>z.string().min(n)\<close>.\<close>

definition zstring :: "path \<Rightarrow> jsval \<Rightarrow> jsstring parsed" where
  "zstring p v = (case v of JStr s \<Rightarrow> Inr s | _ \<Rightarrow> Inl [(invalid_type, p)])"

definition zstring_min :: "nat \<Rightarrow> path \<Rightarrow> jsval \<Rightarrow> jsstring parsed" where
  "zstring_min n p v =
     (case v of
        JStr s \<Rightarrow> if length s < n then Inl [(too_small, p)] else Inr s
      | _ \<Rightarrow> Inl [(invalid_type, p)])"

text \<open>
  \<open>z.number()\<close> with its checks. NaN is not of zod's type \<open>number\<close>. \<open>int()\<close> is
  \<open>Number.isInteger\<close> and reports \<open>invalid_type\<close>; \<open>min\<close> and \<open>max\<close> are inclusive; all
  checks are run and each reports its own issue.
\<close>

datatype num_check = IsInt | Min rat | Max rat

fun isInteger :: "jsnum \<Rightarrow> bool" where
  "isInteger (Finite q) = (of_int \<lfloor>q\<rfloor> = q)"
| "isInteger _ = False"

fun num_lt :: "jsnum \<Rightarrow> rat \<Rightarrow> bool" where
  "num_lt (Finite q) b = (q < b)"
| "num_lt NegInf b = True"
| "num_lt _ b = False"

fun num_gt :: "jsnum \<Rightarrow> rat \<Rightarrow> bool" where
  "num_gt (Finite q) b = (q > b)"
| "num_gt PosInf b = True"
| "num_gt _ b = False"

fun run_check :: "path \<Rightarrow> jsnum \<Rightarrow> num_check \<Rightarrow> issue list" where
  "run_check p n IsInt = (if isInteger n then [] else [(invalid_type, p)])"
| "run_check p n (Min b) = (if num_lt n b then [(too_small, p)] else [])"
| "run_check p n (Max b) = (if num_gt n b then [(too_big, p)] else [])"

definition znumber :: "num_check list \<Rightarrow> path \<Rightarrow> jsval \<Rightarrow> jsnum parsed" where
  "znumber cs p v =
     (case v of
        JNum n \<Rightarrow>
          if n = NaN then Inl [(invalid_type, p)]
          else (let es = concat (map (run_check p n) cs)
                in if es = [] then Inr n else Inl es)
      | _ \<Rightarrow> Inl [(invalid_type, p)])"

text \<open>\<open>z.enum([...])\<close>, \<open>.optional()\<close> and \<open>.default(d)\<close>.\<close>

definition zenum :: "jsstring list \<Rightarrow> path \<Rightarrow> jsval \<Rightarrow> jsstring parsed" where
  "zenum vals p v =
     (case v of
        JStr s \<Rightarrow> if s \<in> set vals then Inr s else Inl [(invalid_enum_value, p)]
      | _ \<Rightarrow> Inl [(invalid_type, p)])"

definition zoptional :: "(path \<Rightarrow> jsval \<Rightarrow> 'a parsed) \<Rightarrow> path \<Rightarrow> jsval \<Rightarrow> 'a option parsed" where
  "zoptional f p v = (if v = JUndefined then Inr None else ap (Inr Some) (f p v))"

definition zdefault :: "jsval \<Rightarrow> (path \<Rightarrow> jsval \<Rightarrow> 'a parsed) \<Rightarrow> path \<Rightarrow> jsval \<Rightarrow> 'a parsed" where
  "zdefault d f p v = f p (if v = JUndefined then d else v)"

text \<open>The elements of \<open>z.array(f)\<close>, each at its index.\<close>

fun zitems :: "(path \<Rightarrow> jsval \<Rightarrow> 'a parsed) \<Rightarrow> path \<Rightarrow> nat \<Rightarrow> jsval list \<Rightarrow> 'a list parsed" where
  "zitems f p i [] = Inr []"
| "zitems f p i (x # xs) = ap (ap (Inr Cons) (f (p @ [Idx i]) x)) (zitems f p (Suc i) xs)"

text \<open>\<open>type MsgIn\<close> and \<open>MsgSchema\<close>.\<close>

record MsgIn =
  role :: jsstring
  content :: jsstring

definition MsgSchema :: "path \<Rightarrow> jsval \<Rightarrow> MsgIn parsed" where
  "MsgSchema p v =
     (case v of
        JObj fs \<Rightarrow>
          ap (ap (Inr (\<lambda>r c. \<lparr>role = r, content = c\<rparr>))
                (zdefault (JStr (lit ''user'')) zstring (p @ [Key (lit ''role'')])
                   (field v (lit ''role''))))
             (zstring_min 1 (p @ [Key (lit ''content'')]) (field v (lit ''content'')))
      | _ \<Rightarrow> Inl [(invalid_type, p)])"

text \<open>
  \<open>type Profile\<close> and the \<open>profile\<close> schema. The field \<open>role\<close> of the source is \<open>p_role\<close>
  here, and so on, since \<open>MsgIn\<close> has a field \<open>role\<close> already.
\<close>

record Profile =
  p_name :: "jsstring option"
  p_role :: "jsstring option"
  p_skills :: "jsstring option"
  p_location :: "jsstring option"
  p_experienceYears :: "jsnum option"
  p_interests :: "jsstring option"

definition ProfileSchema :: "path \<Rightarrow> jsval \<Rightarrow> Profile parsed" where
  "ProfileSchema p v =
     (case v of
        JObj fs \<Rightarrow>
          ap (ap (ap (ap (ap (ap
            (Inr (\<lambda>n r s l e i.
               \<lparr>p_name = n, p_role = r, p_skills = s, p_location = l,
                p_experienceYears = e, p_interests = i\<rparr>))
            (zoptional zstring (p @ [Key (lit ''name'')]) (field v (lit ''name''))))
            (zoptional zstring (p @ [Key (lit ''role'')]) (field v (lit ''role''))))
            (zoptional zstring (p @ [Key (lit ''skills'')]) (field v (lit ''skills''))))
            (zoptional zstring (p @ [Key (lit ''location'')]) (field v (lit ''location''))))
            (zoptional (znumber []) (p @ [Key (lit ''experienceYears'')])
               (field v (lit ''experienceYears''))))
            (zoptional zstring (p @ [Key (lit ''interests'')]) (field v (lit ''interests'')))
      | _ \<Rightarrow> Inl [(invalid_type, p)])"

text \<open>\<open>AskSchema\<close> and the type of \<open>parsed.data\<close>.\<close>

record Ask =
  messages :: "MsgIn list"
  intent :: jsstring
  profile :: "Profile option"
  maxOutputTokens :: "jsnum option"
  temperature :: "jsnum option"

definition zmessages :: "path \<Rightarrow> jsval \<Rightarrow> MsgIn list parsed" where
  "zmessages p v =
     (case v of
        JArr xs \<Rightarrow>
          (case zitems MsgSchema p 0 xs of
             Inr ms \<Rightarrow> if length xs < 1 then Inl [(too_small, p)] else Inr ms
           | Inl es \<Rightarrow> Inl ((if length xs < 1 then [(too_small, p)] else []) @ es))
      | _ \<Rightarrow> Inl [(invalid_type, p)])"

definition AskSchema :: "path \<Rightarrow> jsval \<Rightarrow> Ask parsed" where
  "AskSchema p v =
     (case v of
        JObj fs \<Rightarrow>
          ap (ap (ap (ap (ap
            (Inr (\<lambda>m i pr mx t.
               \<lparr>messages = m, intent = i, profile = pr, maxOutputTokens = mx,
                temperature = t\<rparr>))
            (zmessages (p @ [Key (lit ''messages'')]) (field v (lit ''messages''))))
            (zdefault (JStr (lit ''news''))
               (zenum [lit ''news'', lit ''jobs'', lit ''consult''])
               (p @ [Key (lit ''intent'')]) (field v (lit ''intent''))))
            (zoptional ProfileSchema (p @ [Key (lit ''profile'')]) (field v (lit ''profile''))))
            (zoptional (znumber [IsInt, Min 64, Max 2048]) (p @ [Key (lit ''maxOutputTokens'')])
               (field v (lit ''maxOutputTokens''))))
            (zoptional (znumber [Min 0, Max 1]) (p @ [Key (lit ''temperature'')])
               (field v (lit ''temperature'')))
      | _ \<Rightarrow> Inl [(invalid_type, p)])"

definition safeParse :: "jsval \<Rightarrow> Ask parsed" where
  "safeParse v = AskSchema [] v"

text \<open>
  \<open>ZodError.format()\<close>: a tree with the issues of each path at the node of the path. The
  tree holds the code of each issue where zod has the message it derives from the code.
\<close>

datatype fmt = Fmt (errors: "issue_code list") (children: "(pathel \<times> fmt) list")

fun add_issue :: "path \<Rightarrow> issue_code \<Rightarrow> fmt \<Rightarrow> fmt" where
  "add_issue [] c (Fmt es ch) = Fmt (es @ [c]) ch"
| "add_issue (k # ks) c (Fmt es ch) =
     Fmt es (AList.update k
       (add_issue ks c (case map_of ch k of Some n \<Rightarrow> n | None \<Rightarrow> Fmt [] [])) ch)"

definition format :: "issue list \<Rightarrow> fmt" where
  "format es = fold (\<lambda>(c, p). add_issue p c) es (Fmt [] [])"

fun errors_at :: "path \<Rightarrow> fmt \<Rightarrow> issue_code list" where
  "errors_at [] (Fmt es ch) = es"
| "errors_at (k # ks) (Fmt es ch) =
     (case map_of ch k of Some n \<Rightarrow> errors_at ks n | None \<Rightarrow> [])"

section \<open>Helpers of \<open>src/routes/chat.ts\<close>\<close>

text \<open>
  \<open>clampText(s, max = 4000)\<close>: the empty string is the only falsy string, so
  \<open>if (!s) return ''\<close> is the first branch.
\<close>

definition clampText :: "jsstring \<Rightarrow> nat \<Rightarrow> jsstring" where
  "clampText s mx =
     (if s = [] then []
      else if length s > mx then js_slice 0 (Some (int mx)) s else s)"

text \<open>
  \<open>toGeminiHistory(messages, keep = 6)\<close>. A turn \<open>{ role, parts: [{ text }] }\<close> of the
  provider's wire format is a record of its role and the texts of its parts.
\<close>

record Turn =
  t_role :: jsstring
  parts :: "jsstring list"

definition toGeminiHistory :: "MsgIn list \<Rightarrow> nat \<Rightarrow> Turn list" where
  "toGeminiHistory msgs keep =
     (let recent = js_slice (- int keep) None msgs
      in map (\<lambda>m. \<lparr>t_role = (if role m = lit ''assistant'' then lit ''model'' else lit ''user''),
                    parts = [clampText (content m) 4000]\<rparr>)
           (filter (\<lambda>m. trim (content m) \<noteq> []) recent))"

section \<open>The routes\<close>

text \<open>
  The environment, read once when the module is loaded: a variable is unset or a string,
  and \<open>process.env.X || d\<close> is \<open>d\<close> when \<open>X\<close> is unset or empty. The two constants are
  \<open>process.env.GEMINI_API_KEY || ''\<close> and \<open>process.env.GEMINI_MODEL || 'gemini-1.5-flash'\<close>.
\<close>

record Env =
  env_GEMINI_API_KEY :: "jsstring option"
  env_GEMINI_MODEL :: "jsstring option"

definition env_or :: "jsstring option \<Rightarrow> jsstring \<Rightarrow> jsstring" where
  "env_or v d = (case v of Some s \<Rightarrow> if s \<noteq> [] then s else d | None \<Rightarrow> d)"

definition GEMINI_API_KEY :: "Env \<Rightarrow> jsstring" where
  "GEMINI_API_KEY env = env_or (env_GEMINI_API_KEY env) []"

definition GEMINI_MODEL :: "Env \<Rightarrow> jsstring" where
  "GEMINI_MODEL env = env_or (env_GEMINI_MODEL env) (lit ''gemini-1.5-flash'')"

text \<open>
  One invocation of the provider: \<open>startChat\<close> with the history and the generation
  configuration, then \<open>sendMessage\<close> and the read of \<open>result.response?.text?.()\<close>. Either
  one of them throws a value, or the text read is a string, or \<open>undefined\<close> (\<open>None\<close>).
\<close>

record ProviderCall =
  c_apiKey :: jsstring
  c_model :: jsstring
  history :: "Turn list"
  c_maxOutputTokens :: jsnum
  c_temperature :: jsnum
  sent :: jsstring

datatype outcome = Returned "jsstring option" | Thrown jsval

type_synonym provider = "ProviderCall \<Rightarrow> outcome"

text \<open>
  \<open>JSON.stringify\<close> on a value, as the JSON value the client reads back: a number that is
  not finite is written \<open>null\<close>; in an array \<open>undefined\<close> is written \<open>null\<close>; in an object
  a property whose value is \<open>undefined\<close> is left out. A value that is serialised lists its
  enumerable own properties.
\<close>

fun to_json :: "jsval \<Rightarrow> jsval" where
  "to_json JUndefined = JNull"
| "to_json JNull = JNull"
| "to_json (JBool b) = JBool b"
| "to_json (JNum (Finite q)) = JNum (Finite q)"
| "to_json (JNum _) = JNull"
| "to_json (JStr s) = JStr s"
| "to_json (JArr xs) = JArr (map to_json xs)"
| "to_json (JObj fs) =
     JObj (map (\<lambda>(k, v). (k, to_json v)) (filter (\<lambda>(k, v). v \<noteq> JUndefined) fs))"

text \<open>
  A response is a status and the fields of its JSON body. \<open>res.json\<close> serialises the object
  it is given with \<open>JSON.stringify\<close>: a field whose value is \<open>undefined\<close> is left out, and
  every other value is written as above. The report of \<open>format()\<close> holds strings, arrays
  and objects only and is written as it is.
\<close>

datatype field_val = Js jsval | Details fmt

record Response =
  status :: nat
  body :: "(jsstring \<times> field_val) list"

definition json_field :: "field_val \<Rightarrow> field_val" where
  "json_field v = (case v of Js x \<Rightarrow> Js (to_json x) | Details d \<Rightarrow> Details d)"

definition res_json :: "nat \<Rightarrow> (jsstring \<times> field_val) list \<Rightarrow> Response" where
  "res_json st obj =
     \<lparr>status = st,
      body = map (\<lambda>(k, v). (k, json_field v)) (filter (\<lambda>(k, v). v \<noteq> Js JUndefined) obj)\<rparr>"

definition greeting :: jsstring where
  \<open>greeting = lit (''Halo! Saya ArkWork Agent. Saya bisa bantu ringkas berita migas, '' @
     ''rekomendasi kerja, dan konsultasi langkah praktis. '' @
     ''Coba: "Berita LNG Indonesia terbaru dalam 3 poin."'')\<close>

text \<open>
  What the handler passes to the provider for a validated request: the arguments of
  \<open>getGenerativeModel\<close>, \<open>startChat\<close> and \<open>sendMessage\<close>. \<open>buildSystemPrompt\<close> only
  produces the text of the first synthetic turn; it is the parameter \<open>sys\<close>, applied to the
  intent and the profile. \<open>user\<close> is \<open>messages[messages.length - 1]?.content || ''\<close>.
  The default temperature \<open>0.3\<close> is the double nearest to 3/10 and is written 3/10.
\<close>

definition user_turn :: "Ask \<Rightarrow> jsstring" where
  "user_turn data = (if messages data = [] then [] else content (last (messages data)))"

definition chat_call ::
  "Env \<Rightarrow> (jsstring \<Rightarrow> Profile option \<Rightarrow> jsstring) \<Rightarrow> Ask \<Rightarrow> ProviderCall" where
  "chat_call env sys data =
     \<lparr>c_apiKey = GEMINI_API_KEY env,
      c_model = GEMINI_MODEL env,
      history =
        [\<lparr>t_role = lit ''user'', parts = [sys (intent data) (profile data)]\<rparr>,
         \<lparr>t_role = lit ''model'', parts = [lit ''Siap.'']\<rparr>] @
        toGeminiHistory (js_slice 0 (Some (- 1)) (messages data)) 6,
      c_maxOutputTokens = (case maxOutputTokens data of Some n \<Rightarrow> n | None \<Rightarrow> Finite 512),
      c_temperature = (case temperature data of Some t \<Rightarrow> t | None \<Rightarrow> Finite (3 / 10)),
      sent = clampText (user_turn data) 4000\<rparr>"

text \<open>
  \<open>router.post('/')\<close>. The handler returns the response together with the provider
  invocations it made, in order.
\<close>

definition post_handler ::
  "Env \<Rightarrow> (jsstring \<Rightarrow> Profile option \<Rightarrow> jsstring) \<Rightarrow> provider \<Rightarrow> jsval \<Rightarrow>
     Response \<times> ProviderCall list" where
  "post_handler env sys prov req_body =
     (if GEMINI_API_KEY env = [] then
        (res_json 503
           [(lit ''error'', Js (JStr (lit ''GEMINI_API_KEY_MISSING''))),
            (lit ''message'', Js (JStr (lit ''Server AI belum dikonfigurasi. Hubungi admin.'')))],
         [])
      else
        (case safeParse (nullish req_body (JObj [])) of
           Inl es \<Rightarrow>
             (res_json 400
                [(lit ''error'', Js (JStr (lit ''BAD_REQUEST''))),
                 (lit ''details'', Details (format es))],
              [])
         | Inr data \<Rightarrow>
             if trim (user_turn data) = [] then
               (res_json 200 [(lit ''answer'', Js (JStr greeting))], [])
             else
               (case prov (chat_call env sys data) of
                  Returned r \<Rightarrow>
                    (let text = (case r of Some t \<Rightarrow> t | None \<Rightarrow> [])
                     in if trim text = [] then
                          (res_json 502
                             [(lit ''error'', Js (JStr (lit ''EMPTY_RESPONSE''))),
                              (lit ''message'', Js (JStr (lit ''AI tidak mengembalikan teks.'')))],
                           [chat_call env sys data])
                        else
                          (res_json 200 [(lit ''answer'', Js (JStr (trim text)))],
                           [chat_call env sys data]))
                | Thrown err \<Rightarrow>
                    (res_json 502
                       [(lit ''error'', Js (JStr (lit ''AI_ERROR''))),
                        (lit ''code'',
                           Js (js_or (field err (lit ''code'')) (field err (lit ''status'')))),
                        (lit ''message'',
                           Js (js_or (field err (lit ''message''))
                                 (JStr (lit ''Gagal meminta jawaban dari AI.''))))],
                     [chat_call env sys data]))))"

section \<open>Example inputs\<close>

definition ex_env :: Env where
  "ex_env = \<lparr>env_GEMINI_API_KEY = Some (lit ''key''), env_GEMINI_MODEL = None\<rparr>"

definition ex_env_unset :: Env where
  "ex_env_unset = \<lparr>env_GEMINI_API_KEY = None, env_GEMINI_MODEL = None\<rparr>"

definition ex_env_empty :: Env where
  "ex_env_empty = \<lparr>env_GEMINI_API_KEY = Some [], env_GEMINI_MODEL = None\<rparr>"

definition ex_sys :: "jsstring \<Rightarrow> Profile option \<Rightarrow> jsstring" where
  "ex_sys i p = lit ''system''"

text \<open>The minimal request \<open>{ messages: [{ role: "user", content: "hello" }] }\<close>.\<close>

definition ex_body_hello :: jsval where
  "ex_body_hello =
     JObj [(lit ''messages'',
            JArr [JObj [(lit ''role'', JStr (lit ''user'')),
                        (lit ''content'', JStr (lit ''hello''))]])]"

definition ex_data_hello :: Ask where
  "ex_data_hello =
     \<lparr>messages = [\<lparr>role = lit ''user'', content = lit ''hello''\<rparr>], intent = lit ''news'',
      profile = None, maxOutputTokens = None, temperature = None\<rparr>"

text \<open>The request \<open>{ messages: [{ content: " " }] }\<close>.\<close>

definition ex_body_blank :: jsval where
  "ex_body_blank = JObj [(lit ''messages'', JArr [JObj [(lit ''content'', JStr (lit '' ''))]])]"

definition ex_data_blank :: Ask where
  "ex_data_blank =
     \<lparr>messages = [\<lparr>role = lit ''user'', content = lit '' ''\<rparr>], intent = lit ''news'',
      profile = None, maxOutputTokens = None, temperature = None\<rparr>"

text \<open>
  Provider stubs: one answers \<open>"hi there"\<close>, one answers two spaces, one returns a result
  without a response, and one throws an error object with \<open>code: 0\<close>, a status, a message
  and a stack, one throws an error object without \<open>code\<close>, and one throws
  \<open>{ code: Infinity, message: { detail: undefined, retry: NaN } }\<close>.
\<close>

definition provider_hi_there :: provider where
  "provider_hi_there c = Returned (Some (lit ''hi there''))"

definition provider_spaces :: provider where
  "provider_spaces c = Returned (Some (lit ''  ''))"

definition provider_no_response :: provider where
  "provider_no_response c = Returned None"

definition ex_err_code0 :: jsval where
  "ex_err_code0 =
     JObj [(lit ''code'', JNum (Finite 0)),
           (lit ''status'', JNum (Finite 503)),
           (lit ''message'', JStr (lit ''Service Unavailable'')),
           (lit ''stack'', JStr (lit ''Error: Service Unavailable at sendMessage''))]"

definition provider_throws_code0 :: provider where
  "provider_throws_code0 c = Thrown ex_err_code0"

definition ex_err_status :: jsval where
  "ex_err_status =
     JObj [(lit ''name'', JStr (lit ''GoogleGenerativeAIFetchError'')),
           (lit ''status'', JNum (Finite 429)),
           (lit ''message'', JStr (lit ''Too Many Requests'')),
           (lit ''stack'', JStr (lit ''Error: Too Many Requests at sendMessage''))]"

definition provider_throws_status :: provider where
  "provider_throws_status c = Thrown ex_err_status"

definition ex_err_infinite :: jsval where
  "ex_err_infinite =
     JObj [(lit ''code'', JNum PosInf),
           (lit ''message'', JObj [(lit ''detail'', JUndefined), (lit ''retry'', JNum NaN)])]"

definition provider_throws_infinite :: provider where
  "provider_throws_infinite c = Thrown ex_err_infinite"

text \<open>
  A request of eight messages with contents \<open>a\<close>, \<open>b\<close>, \<open>c\<close>, \<open>d\<close>, \<open>e\<close>, \<open>f\<close>, \<open>g\<close>, \<open>h\<close>, where
  the third content \<open>c\<close> is a parameter; its parsed form, the six messages before the last
  one, and the turns they become when \<open>c\<close> is blank and when \<open>c\<close> is the letter c.
\<close>

definition ex_msg :: "string \<Rightarrow> string \<Rightarrow> jsval" where
  "ex_msg r c = JObj [(lit ''role'', JStr (lit r)), (lit ''content'', JStr (lit c))]"

definition ex_body_eight :: "string \<Rightarrow> jsval" where
  "ex_body_eight c =
     JObj [(lit ''messages'',
            JArr [ex_msg ''user'' ''a'', ex_msg ''assistant'' ''b'', ex_msg ''user'' c,
                  ex_msg ''assistant'' ''d'', ex_msg ''user'' ''e'', ex_msg ''assistant'' ''f'',
                  ex_msg ''system'' ''g'', ex_msg ''user'' ''h''])]"

definition ex_window :: "string \<Rightarrow> MsgIn list" where
  "ex_window c =
     [\<lparr>role = lit ''assistant'', content = lit ''b''\<rparr>,
      \<lparr>role = lit ''user'', content = lit c\<rparr>,
      \<lparr>role = lit ''assistant'', content = lit ''d''\<rparr>,
      \<lparr>role = lit ''user'', content = lit ''e''\<rparr>,
      \<lparr>role = lit ''assistant'', content = lit ''f''\<rparr>,
      \<lparr>role = lit ''system'', content = lit ''g''\<rparr>]"

definition ex_data_eight :: "string \<Rightarrow> Ask" where
  "ex_data_eight c =
     \<lparr>messages = [\<lparr>role = lit ''user'', content = lit ''a''\<rparr>] @ ex_window c @
                  [\<lparr>role = lit ''user'', content = lit ''h''\<rparr>],
      intent = lit ''news'', profile = None, maxOutputTokens = None, temperature = None\<rparr>"

definition ex_turns_blank :: "Turn list" where
  "ex_turns_blank =
     [\<lparr>t_role = lit ''model'', parts = [lit ''b'']\<rparr>,
      \<lparr>t_role = lit ''model'', parts = [lit ''d'']\<rparr>,
      \<lparr>t_role = lit ''user'', parts = [lit ''e'']\<rparr>,
      \<lparr>t_role = lit ''model'', parts = [lit ''f'']\<rparr>,
      \<lparr>t_role = lit ''user'', parts = [lit ''g'']\<rparr>]"

definition ex_turns_full :: "Turn list" where
  "ex_turns_full =
     [\<lparr>t_role = lit ''model'', parts = [lit ''b'']\<rparr>,
      \<lparr>t_role = lit ''user'', parts = [lit ''c'']\<rparr>,
      \<lparr>t_role = lit ''model'', parts = [lit ''d'']\<rparr>,
      \<lparr>t_role = lit ''user'', parts = [lit ''e'']\<rparr>,
      \<lparr>t_role = lit ''model'', parts = [lit ''f'']\<rparr>,
      \<lparr>t_role = lit ''user'', parts = [lit ''g'']\<rparr>]"

section \<open>The violations the specification lists\<close>

text \<open>
  From the words of the specification, not from the code: the paths of the fields of a
  request body that violate the chat schema in one of the listed ways. \<open>messages\<close> is
  missing or empty; a message has a content of length zero; \<open>intent\<close> is present but not
  one of the three modes; \<open>maxOutputTokens\<close> is present but not an integer in [64, 2048];
  \<open>temperature\<close> is present but not a number in [0, 1].
\<close>

definition claimed_messages :: "jsval \<Rightarrow> path list" where
  "claimed_messages b =
     (if field b (lit ''messages'') = JUndefined \<or> field b (lit ''messages'') = JArr []
      then [[Key (lit ''messages'')]] else [])"

definition claimed_contents :: "jsval \<Rightarrow> path list" where
  "claimed_contents b =
     (case field b (lit ''messages'') of
        JArr xs \<Rightarrow>
          map (\<lambda>i. [Key (lit ''messages''), Idx i, Key (lit ''content'')])
            (filter (\<lambda>i. field (xs ! i) (lit ''content'') = JStr []) [0..<length xs])
      | _ \<Rightarrow> [])"

definition claimed_intent :: "jsval \<Rightarrow> path list" where
  "claimed_intent b =
     (if field b (lit ''intent'') = JUndefined \<or>
         field b (lit ''intent'') \<in> {JStr (lit ''news''), JStr (lit ''jobs''), JStr (lit ''consult'')}
      then [] else [[Key (lit ''intent'')]])"

definition claimed_maxOutputTokens :: "jsval \<Rightarrow> path list" where
  "claimed_maxOutputTokens b =
     (case field b (lit ''maxOutputTokens'') of
        JUndefined \<Rightarrow> []
      | JNum (Finite q) \<Rightarrow>
          if of_int \<lfloor>q\<rfloor> = q \<and> 64 \<le> q \<and> q \<le> 2048 then []
          else [[Key (lit ''maxOutputTokens'')]]
      | _ \<Rightarrow> [[Key (lit ''maxOutputTokens'')]])"

definition claimed_temperature :: "jsval \<Rightarrow> path list" where
  "claimed_temperature b =
     (case field b (lit ''temperature'') of
        JUndefined \<Rightarrow> []
      | JNum (Finite q) \<Rightarrow> if 0 \<le> q \<and> q \<le> 1 then [] else [[Key (lit ''temperature'')]]
      | _ \<Rightarrow> [[Key (lit ''temperature'')]])"

definition claimed_violations :: "jsval \<Rightarrow> path list" where
  "claimed_violations b =
     claimed_messages b @ claimed_contents b @ claimed_intent b @
     claimed_maxOutputTokens b @ claimed_temperature b"

text \<open>
  The request \<open>{ messages: [{ content: "" }], intent: "chat", maxOutputTokens: 10.5,
  temperature: 2 }\<close> and the issues zod reports for it.
\<close>

definition ex_body_bad :: jsval where
  "ex_body_bad =
     JObj [(lit ''messages'', JArr [JObj [(lit ''content'', JStr [])]]),
           (lit ''intent'', JStr (lit ''chat'')),
           (lit ''maxOutputTokens'', JNum (Finite (21 / 2))),
           (lit ''temperature'', JNum (Finite 2))]"

definition ex_issues_bad :: "issue list" where
  "ex_issues_bad =
     [(too_small, [Key (lit ''messages''), Idx 0, Key (lit ''content'')]),
      (invalid_enum_value, [Key (lit ''intent'')]),
      (invalid_type, [Key (lit ''maxOutputTokens'')]),
      (too_small, [Key (lit ''maxOutputTokens'')]),
      (too_big, [Key (lit ''temperature'')])]"

section \<open>Properties\<close>

subsection \<open>String literals and trimming\<close>

lemma of_char_lt: "(of_char x :: nat) < 65536"
proof -
  have "(of_char x :: nat) = of_char x mod 256"
    by (simp only: of_char_mod_256)
  also have "\<dots> < 256"
    by simp
  finally have "(of_char x :: nat) < 256" .
  then show ?thesis
    by linarith
qed

lemma lit_inj [simp]: "lit a = lit b \<longleftrightarrow> a = b"
proof -
  have "inj (\<lambda>c. (of_nat (of_char c) :: 16 word))"
  proof (rule injI)
    fix x y :: char
    assume "(of_nat (of_char x) :: 16 word) = of_nat (of_char y)"
    then have "take_bit 16 (of_char x :: nat) = take_bit 16 (of_char y :: nat)"
      by (simp add: word_of_nat_eq_iff)
    then show "x = y"
      using of_char_lt [of x] of_char_lt [of y] by (simp add: take_bit_nat_eq_self)
  qed
  then show ?thesis
    by (simp add: lit_def inj_map_eq_map)
qed

lemma lit_Nil [simp]: "lit s = [] \<longleftrightarrow> s = []" "[] = lit s \<longleftrightarrow> s = []"
  by (auto simp: lit_def)

lemma trim_Nil [simp]: "trim [] = []"
  by (simp add: trim_def)

lemma trim_examples:
  "trim (lit ''hello'') = lit ''hello''"
  "trim (lit ''hi there'') = lit ''hi there''"
  "trim (lit '' '') = []"
  "trim (lit ''  '') = []"
  by (simp_all add: trim_def lit_def is_ws_def)

lemma trim_letters:
  "trim (lit ''a'') = lit ''a''" "trim (lit ''b'') = lit ''b''" "trim (lit ''c'') = lit ''c''"
  "trim (lit ''d'') = lit ''d''" "trim (lit ''e'') = lit ''e''" "trim (lit ''f'') = lit ''f''"
  "trim (lit ''g'') = lit ''g''" "trim (lit ''h'') = lit ''h''"
  by (simp_all add: trim_def lit_def is_ws_def)

subsection \<open>Slices\<close>

lemma js_slice_prefix:
  "js_slice 0 (Some (int m)) xs = take m xs"
  by (simp add: js_slice_def Let_def min_def)

lemma clampText_take: "clampText s mx = take mx s"
  by (simp add: clampText_def js_slice_prefix)

lemma js_slice_last: "0 < k \<Longrightarrow> js_slice (- int k) None xs = drop (length xs - k) xs"
  by (auto simp: js_slice_def Let_def max_def nat_diff_distrib')

lemma js_slice_butlast: "js_slice 0 (Some (- 1)) xs = butlast xs"
  by (cases "xs = []")
     (auto simp: js_slice_def Let_def max_def min_def butlast_conv_take nat_diff_distrib')

lemma set_js_slice: "set (js_slice a b xs) \<subseteq> set xs"
proof -
  have "set (take i (drop j xs)) \<subseteq> set xs" for i j
    using set_take_subset [of i "drop j xs"] set_drop_subset [of j xs] by blast
  then show ?thesis
    by (simp add: js_slice_def Let_def)
qed

lemma toGeminiHistory_6:
  "toGeminiHistory msgs 6 =
     map (\<lambda>m. \<lparr>t_role = (if role m = lit ''assistant'' then lit ''model'' else lit ''user''),
                parts = [clampText (content m) 4000]\<rparr>)
       (filter (\<lambda>m. trim (content m) \<noteq> []) (drop (length msgs - 6) msgs))"
  using js_slice_last [of 6 msgs] by (simp add: toGeminiHistory_def Let_def)

subsection \<open>The branches of the handler\<close>

lemma post_handler_nokey:
  "GEMINI_API_KEY env = [] \<Longrightarrow>
   post_handler env sys prov b =
     (res_json 503
        [(lit ''error'', Js (JStr (lit ''GEMINI_API_KEY_MISSING''))),
         (lit ''message'', Js (JStr (lit ''Server AI belum dikonfigurasi. Hubungi admin.'')))],
      [])"
  by (simp add: post_handler_def)

lemma post_handler_invalid:
  "GEMINI_API_KEY env \<noteq> [] \<Longrightarrow> safeParse (nullish b (JObj [])) = Inl es \<Longrightarrow>
   post_handler env sys prov b =
     (res_json 400
        [(lit ''error'', Js (JStr (lit ''BAD_REQUEST''))),
         (lit ''details'', Details (format es))],
      [])"
  by (simp add: post_handler_def)

lemma post_handler_greeting:
  "GEMINI_API_KEY env \<noteq> [] \<Longrightarrow> safeParse (nullish b (JObj [])) = Inr data \<Longrightarrow>
   trim (user_turn data) = [] \<Longrightarrow>
   post_handler env sys prov b = (res_json 200 [(lit ''answer'', Js (JStr greeting))], [])"
  by (simp add: post_handler_def)

lemma post_handler_returned:
  "GEMINI_API_KEY env \<noteq> [] \<Longrightarrow> safeParse (nullish b (JObj [])) = Inr data \<Longrightarrow>
   trim (user_turn data) \<noteq> [] \<Longrightarrow> prov (chat_call env sys data) = Returned r \<Longrightarrow>
   post_handler env sys prov b =
     (if trim (case r of Some t \<Rightarrow> t | None \<Rightarrow> []) = [] then
        res_json 502
          [(lit ''error'', Js (JStr (lit ''EMPTY_RESPONSE''))),
           (lit ''message'', Js (JStr (lit ''AI tidak mengembalikan teks.'')))]
      else
        res_json 200
          [(lit ''answer'', Js (JStr (trim (case r of Some t \<Rightarrow> t | None \<Rightarrow> []))))],
      [chat_call env sys data])"
  by (simp add: post_handler_def Let_def)

lemma post_handler_thrown:
  "GEMINI_API_KEY env \<noteq> [] \<Longrightarrow> safeParse (nullish b (JObj [])) = Inr data \<Longrightarrow>
   trim (user_turn data) \<noteq> [] \<Longrightarrow> prov (chat_call env sys data) = Thrown err \<Longrightarrow>
   post_handler env sys prov b =
     (res_json 502
        [(lit ''error'', Js (JStr (lit ''AI_ERROR''))),
         (lit ''code'', Js (js_or (field err (lit ''code'')) (field err (lit ''status'')))),
         (lit ''message'',
            Js (js_or (field err (lit ''message''))
                  (JStr (lit ''Gagal meminta jawaban dari AI.''))))],
      [chat_call env sys data])"
  by (simp add: post_handler_def)

text \<open>A provider invocation is made only with a key, for a validated request, for a user
  turn that is not blank; it is the only one.\<close>

lemma post_handler_calls:
  assumes "c \<in> set (snd (post_handler env sys prov b))"
  shows "GEMINI_API_KEY env \<noteq> [] \<and>
     (\<exists>data. safeParse (nullish b (JObj [])) = Inr data \<and> trim (user_turn data) \<noteq> [] \<and>
        c = chat_call env sys data)"
proof (cases "GEMINI_API_KEY env = []")
  case True
  with assms show ?thesis
    by (simp add: post_handler_nokey)
next
  case key: False
  show ?thesis
  proof (cases "safeParse (nullish b (JObj []))")
    case (Inl es)
    with assms key show ?thesis
      by (simp add: post_handler_invalid)
  next
    case (Inr data)
    show ?thesis
    proof (cases "trim (user_turn data) = []")
      case True
      with assms key Inr show ?thesis
        by (simp add: post_handler_greeting)
    next
      case False
      with assms key Inr show ?thesis
        by (cases "prov (chat_call env sys data)")
           (simp_all add: post_handler_returned post_handler_thrown)
    qed
  qed
qed

subsection \<open>The example inputs, evaluated\<close>

lemmas schema_defs =
  safeParse_def AskSchema_def zmessages_def MsgSchema_def ProfileSchema_def ap_def
  zdefault_def zoptional_def zstring_def zstring_min_def zenum_def znumber_def nullish_def

lemma ex_env_key: "GEMINI_API_KEY ex_env = lit ''key''"
  by (simp add: GEMINI_API_KEY_def env_or_def ex_env_def)

lemma ex_env_no_key: "GEMINI_API_KEY ex_env_unset = []" "GEMINI_API_KEY ex_env_empty = []"
  by (simp_all add: GEMINI_API_KEY_def env_or_def ex_env_unset_def ex_env_empty_def)

lemma safeParse_hello: "safeParse (nullish ex_body_hello (JObj [])) = Inr ex_data_hello"
  by (simp add: ex_body_hello_def ex_data_hello_def schema_defs)

lemma safeParse_blank: "safeParse (nullish ex_body_blank (JObj [])) = Inr ex_data_blank"
  by (simp add: ex_body_blank_def ex_data_blank_def schema_defs)

lemma user_turn_hello: "user_turn ex_data_hello = lit ''hello''"
  by (simp add: user_turn_def ex_data_hello_def)

lemma user_turn_blank: "user_turn ex_data_blank = lit '' ''"
  by (simp add: user_turn_def ex_data_blank_def)

lemma hello_calls:
  "snd (post_handler ex_env ex_sys prov ex_body_hello) = [chat_call ex_env ex_sys ex_data_hello]"
  by (cases "prov (chat_call ex_env ex_sys ex_data_hello)")
     (simp_all add: post_handler_returned [OF _ safeParse_hello]
        post_handler_thrown [OF _ safeParse_hello] ex_env_key user_turn_hello trim_examples)

lemma safeParse_eight:
  "c \<noteq> [] \<Longrightarrow> safeParse (nullish (ex_body_eight c) (JObj [])) = Inr (ex_data_eight c)"
  by (simp add: ex_body_eight_def ex_data_eight_def ex_window_def ex_msg_def schema_defs)

lemma user_turn_eight: "user_turn (ex_data_eight c) = lit ''h''"
  by (simp add: user_turn_def ex_data_eight_def)

lemma eight_calls:
  assumes "c \<noteq> []"
  shows "snd (post_handler ex_env ex_sys prov (ex_body_eight c)) =
     [chat_call ex_env ex_sys (ex_data_eight c)]"
  by (cases "prov (chat_call ex_env ex_sys (ex_data_eight c))")
     (simp_all add: post_handler_returned [OF _ safeParse_eight [OF assms]]
        post_handler_thrown [OF _ safeParse_eight [OF assms]] ex_env_key user_turn_eight
        trim_letters)

lemma clamp_letters:
  "clampText (lit ''b'') 4000 = lit ''b''" "clampText (lit ''c'') 4000 = lit ''c''"
  "clampText (lit ''d'') 4000 = lit ''d''" "clampText (lit ''e'') 4000 = lit ''e''"
  "clampText (lit ''f'') 4000 = lit ''f''" "clampText (lit ''g'') 4000 = lit ''g''"
  by (simp_all add: clampText_take lit_def)

lemma ex_window_blank:
  "length (ex_window '' '') = 6" "\<exists>m \<in> set (ex_window '' ''). trim (content m) = []"
  by (simp_all add: ex_window_def trim_examples)

lemma ex_window_history:
  "toGeminiHistory (ex_window '' '') 6 = ex_turns_blank"
  "toGeminiHistory (ex_window ''c'') 6 = ex_turns_full"
  by (simp_all add: toGeminiHistory_6 ex_window_def ex_turns_blank_def ex_turns_full_def
      trim_letters trim_examples clamp_letters)

lemma butlast_eight:
  "butlast (messages (ex_data_eight c)) =
     [\<lparr>role = lit ''user'', content = lit ''a''\<rparr>] @ ex_window c"
  by (simp add: ex_data_eight_def butlast_append)

lemma ex_eight_history:
  "history (chat_call ex_env ex_sys (ex_data_eight c)) =
     [\<lparr>t_role = lit ''user'', parts = [lit ''system'']\<rparr>,
      \<lparr>t_role = lit ''model'', parts = [lit ''Siap.'']\<rparr>] @ toGeminiHistory (ex_window c) 6"
  by (simp add: chat_call_def js_slice_butlast butlast_eight ex_sys_def toGeminiHistory_6)
     (simp add: ex_window_def)

subsection \<open>Parsing\<close>

lemma ap_Inr_iff: "ap f x = Inr y \<longleftrightarrow> (\<exists>g a. f = Inr g \<and> x = Inr a \<and> y = g a)"
  by (auto simp: ap_def split: sum.splits)

lemma isl_ap: "isl (ap f x) \<longleftrightarrow> isl f \<or> isl x"
  by (auto simp: ap_def split: sum.splits)

lemma issues_of_ap: "issues_of (ap f x) = issues_of f @ issues_of x"
  by (auto simp: ap_def issues_of_def split: sum.splits)

lemma issues_of_simps [simp]: "issues_of (Inl es) = es" "issues_of (Inr v) = []"
  by (simp_all add: issues_of_def)

lemma isl_issues: "isl r \<Longrightarrow> r = Inl (issues_of r)"
  by (cases r) simp_all

lemma zitems_snoc:
  "zitems f p k (xs @ [x]) = Inr ms \<Longrightarrow>
   \<exists>ms' m. ms = ms' @ [m] \<and> f (p @ [Idx (k + length xs)]) x = Inr m"
proof (induction xs arbitrary: k ms)
  case Nil
  then show ?case
    by (auto simp: ap_Inr_iff)
next
  case (Cons y ys)
  from Cons.prems obtain m0 ms0 where
    ms: "ms = m0 # ms0" and rest: "zitems f p (Suc k) (ys @ [x]) = Inr ms0"
    by (auto simp: ap_Inr_iff)
  from Cons.IH [OF rest] obtain ms' m where
    "ms0 = ms' @ [m]" "f (p @ [Idx (Suc k + length ys)]) x = Inr m"
    by blast
  with ms show ?case
    by (intro exI [of _ "m0 # ms'"] exI [of _ m]) simp
qed

lemma MsgSchema_content:
  "MsgSchema p x = Inr m \<Longrightarrow> field x (lit ''content'') = JStr (content m)"
  by (cases x) (auto simp: MsgSchema_def ap_Inr_iff zstring_min_def split: jsval.splits if_splits)

lemma zmessages_last:
  assumes "zmessages p (JArr (xs @ [x])) = Inr ms"
  shows "ms \<noteq> [] \<and> field x (lit ''content'') = JStr (content (last ms))"
proof -
  from assms have "zitems MsgSchema p 0 (xs @ [x]) = Inr ms"
    by (auto simp: zmessages_def split: sum.splits if_splits)
  from zitems_snoc [OF this] obtain ms' m where
    "ms = ms' @ [m]" "MsgSchema (p @ [Idx (0 + length xs)]) x = Inr m"
    by blast
  then show ?thesis
    by (simp add: MsgSchema_content)
qed

lemma safeParse_messages:
  "safeParse b = Inr data \<Longrightarrow>
   zmessages [Key (lit ''messages'')] (field b (lit ''messages'')) = Inr (messages data)"
  by (cases b) (auto simp: safeParse_def AskSchema_def ap_Inr_iff)

subsection \<open>The report\<close>

lemma errors_at_empty [simp]: "errors_at p (Fmt [] []) = []"
  by (cases p) simp_all

lemma errors_at_add_issue:
  "errors_at p (add_issue q c t) = errors_at p t @ (if p = q then [c] else [])"
proof (induction q arbitrary: p t)
  case Nil
  then show ?case
    by (cases t; cases p) simp_all
next
  case (Cons k ks)
  obtain es ch where t: "t = Fmt es ch"
    by (cases t)
  show ?case
  proof (cases p)
    case Nil
    with t show ?thesis
      by simp
  next
    case (Cons k' ks')
    with t Cons.IH show ?thesis
      by (auto simp: update_conv' split: option.splits)
  qed
qed

lemma errors_at_fold:
  "errors_at p (fold (\<lambda>(c, q). add_issue q c) es t) =
     errors_at p t @ map fst (filter (\<lambda>e. snd e = p) es)"
  by (induction es arbitrary: t) (auto simp: errors_at_add_issue)

lemma errors_at_format: "errors_at p (format es) = map fst (filter (\<lambda>e. snd e = p) es)"
  by (simp add: format_def errors_at_fold)

lemma errors_at_format_nonempty: "(c, p) \<in> set es \<Longrightarrow> errors_at p (format es) \<noteq> []"
  by (force simp: errors_at_format filter_empty_conv)

subsection \<open>Each listed violation is reported at its path\<close>

lemma MsgSchema_empty_content:
  assumes "field x (lit ''content'') = JStr []"
  shows "isl (MsgSchema q x) \<and>
     (too_small, q @ [Key (lit ''content'')]) \<in> set (issues_of (MsgSchema q x))"
proof -
  from assms obtain fs where "x = JObj fs"
    by (cases x) simp_all
  with assms show ?thesis
    by (simp add: MsgSchema_def isl_ap issues_of_ap zstring_min_def)
qed

lemma zitems_empty_content:
  assumes "i < length xs" and "field (xs ! i) (lit ''content'') = JStr []"
  shows "isl (zitems MsgSchema p k xs) \<and>
     (too_small, p @ [Idx (k + i), Key (lit ''content'')]) \<in>
       set (issues_of (zitems MsgSchema p k xs))"
  using assms
proof (induction xs arbitrary: k i)
  case Nil
  then show ?case
    by simp
next
  case (Cons x xs)
  show ?case
  proof (cases i)
    case 0
    with Cons.prems MsgSchema_empty_content [of x "p @ [Idx k]"] show ?thesis
      by (simp add: isl_ap issues_of_ap)
  next
    case (Suc j)
    with Cons.prems Cons.IH [of j "Suc k"] show ?thesis
      by (simp add: isl_ap issues_of_ap)
  qed
qed

lemma claimed_messages_reported:
  assumes "q \<in> set (claimed_messages (JObj fs))"
  shows "isl (zmessages [Key (lit ''messages'')] (field (JObj fs) (lit ''messages''))) \<and>
     (\<exists>c. (c, q) \<in>
        set (issues_of (zmessages [Key (lit ''messages'')] (field (JObj fs) (lit ''messages'')))))"
  using assms by (auto simp: claimed_messages_def zmessages_def split: if_splits)

lemma claimed_contents_reported:
  assumes "q \<in> set (claimed_contents (JObj fs))"
  shows "isl (zmessages [Key (lit ''messages'')] (field (JObj fs) (lit ''messages''))) \<and>
     (\<exists>c. (c, q) \<in>
        set (issues_of (zmessages [Key (lit ''messages'')] (field (JObj fs) (lit ''messages'')))))"
proof -
  from assms obtain xs where m: "field (JObj fs) (lit ''messages'') = JArr xs"
    by (cases "field (JObj fs) (lit ''messages'')") (simp_all add: claimed_contents_def)
  with assms obtain i where i: "i < length xs"
    and e: "field (xs ! i) (lit ''content'') = JStr []"
    and q: "q = [Key (lit ''messages''), Idx i, Key (lit ''content'')]"
    by (auto simp: claimed_contents_def)
  from zitems_empty_content [OF i e, of "[Key (lit ''messages'')]" 0]
  have "isl (zitems MsgSchema [Key (lit ''messages'')] 0 xs)"
    and "(too_small, q) \<in> set (issues_of (zitems MsgSchema [Key (lit ''messages'')] 0 xs))"
    by (simp_all add: q)
  then show ?thesis
    unfolding m by (cases "zitems MsgSchema [Key (lit ''messages'')] 0 xs")
      (auto simp: zmessages_def)
qed

lemma claimed_intent_reported:
  assumes "q \<in> set (claimed_intent (JObj fs))"
  shows "isl (zdefault (JStr (lit ''news'')) (zenum [lit ''news'', lit ''jobs'', lit ''consult''])
        [Key (lit ''intent'')] (field (JObj fs) (lit ''intent''))) \<and>
     (\<exists>c. (c, q) \<in>
        set (issues_of (zdefault (JStr (lit ''news''))
          (zenum [lit ''news'', lit ''jobs'', lit ''consult''])
          [Key (lit ''intent'')] (field (JObj fs) (lit ''intent'')))))"
  using assms
  by (cases "field (JObj fs) (lit ''intent'')")
     (auto simp: claimed_intent_def zdefault_def zenum_def split: if_splits)

lemma claimed_maxOutputTokens_reported:
  assumes "q \<in> set (claimed_maxOutputTokens (JObj fs))"
  shows "isl (zoptional (znumber [IsInt, Min 64, Max 2048]) [Key (lit ''maxOutputTokens'')]
        (field (JObj fs) (lit ''maxOutputTokens''))) \<and>
     (\<exists>c. (c, q) \<in>
        set (issues_of (zoptional (znumber [IsInt, Min 64, Max 2048])
          [Key (lit ''maxOutputTokens'')] (field (JObj fs) (lit ''maxOutputTokens'')))))"
proof (cases "field (JObj fs) (lit ''maxOutputTokens'')")
  case (JNum n)
  with assms show ?thesis
    by (cases n)
       (auto simp: claimed_maxOutputTokens_def zoptional_def znumber_def isl_ap issues_of_ap
          split: if_splits)
qed (use assms in \<open>auto simp: claimed_maxOutputTokens_def zoptional_def znumber_def isl_ap
        issues_of_ap\<close>)

lemma claimed_temperature_reported:
  assumes "q \<in> set (claimed_temperature (JObj fs))"
  shows "isl (zoptional (znumber [Min 0, Max 1]) [Key (lit ''temperature'')]
        (field (JObj fs) (lit ''temperature''))) \<and>
     (\<exists>c. (c, q) \<in>
        set (issues_of (zoptional (znumber [Min 0, Max 1])
          [Key (lit ''temperature'')] (field (JObj fs) (lit ''temperature'')))))"
proof (cases "field (JObj fs) (lit ''temperature'')")
  case (JNum n)
  with assms show ?thesis
    by (cases n)
       (auto simp: claimed_temperature_def zoptional_def znumber_def isl_ap issues_of_ap
          split: if_splits)
qed (use assms in \<open>auto simp: claimed_temperature_def zoptional_def znumber_def isl_ap
        issues_of_ap\<close>)

lemma claimed_violation_reported:
  assumes "q \<in> set (claimed_violations (JObj fs))"
  shows "isl (safeParse (JObj fs)) \<and> (\<exists>c. (c, q) \<in> set (issues_of (safeParse (JObj fs))))"
proof -
  from assms consider
    "q \<in> set (claimed_messages (JObj fs))" | "q \<in> set (claimed_contents (JObj fs))" |
    "q \<in> set (claimed_intent (JObj fs))" | "q \<in> set (claimed_maxOutputTokens (JObj fs))" |
    "q \<in> set (claimed_temperature (JObj fs))"
    by (auto simp: claimed_violations_def)
  then show ?thesis
  proof cases
    case 1
    from claimed_messages_reported [OF this] show ?thesis
      by (auto simp: safeParse_def AskSchema_def isl_ap issues_of_ap)
  next
    case 2
    from claimed_contents_reported [OF this] show ?thesis
      by (auto simp: safeParse_def AskSchema_def isl_ap issues_of_ap)
  next
    case 3
    from claimed_intent_reported [OF this] show ?thesis
      by (auto simp: safeParse_def AskSchema_def isl_ap issues_of_ap)
  next
    case 4
    from claimed_maxOutputTokens_reported [OF this] show ?thesis
      by (auto simp: safeParse_def AskSchema_def isl_ap issues_of_ap)
  next
    case 5
    from claimed_temperature_reported [OF this] show ?thesis
      by (auto simp: safeParse_def AskSchema_def isl_ap issues_of_ap)
  qed
qed

lemma safeParse_not_object:
  "\<forall>fs. b \<noteq> JObj fs \<Longrightarrow> safeParse b = Inl [(invalid_type, [])]"
  by (cases b) (simp_all add: safeParse_def AskSchema_def)

lemma floor_ten_and_a_half: "\<lfloor>21 / 2 :: rat\<rfloor> = 10"
  by (simp add: floor_eq_iff)

lemma safeParse_bad: "safeParse (nullish ex_body_bad (JObj [])) = Inl ex_issues_bad"
  by (simp add: ex_body_bad_def ex_issues_bad_def schema_defs floor_ten_and_a_half)

lemma claimed_violations_bad:
  "claimed_violations (nullish ex_body_bad (JObj [])) =
     [[Key (lit ''messages''), Idx 0, Key (lit ''content'')],
      [Key (lit ''intent'')], [Key (lit ''maxOutputTokens'')], [Key (lit ''temperature'')]]"
  by (simp add: ex_body_bad_def nullish_def claimed_violations_def claimed_messages_def
      claimed_contents_def claimed_intent_def claimed_maxOutputTokens_def
      claimed_temperature_def floor_ten_and_a_half)

subsection \<open>The claims\<close>

text \<open>
  Claim C1, amended. With the key configured, every request body that violates the chat
  schema gets 400 with the error \<open>BAD_REQUEST\<close> and the report of the issues, and no
  provider invocation is made. Every body with one of the listed violations does violate
  the schema; when the body is a JSON object (an absent body counts as \<open>{}\<close>), the report
  has an entry at the path of every violated field, not only the first one; a body that is
  not an object gets one entry, at the root.
\<close>

theorem bad_request_400:
  assumes "GEMINI_API_KEY env \<noteq> []" and "b' = nullish b (JObj [])"
  shows "(\<forall>es. safeParse b' = Inl es \<longrightarrow>
        post_handler env sys prov b =
          (\<lparr>status = 400,
            body = [(lit ''error'', Js (JStr (lit ''BAD_REQUEST''))),
                    (lit ''details'', Details (format es))]\<rparr>,
           [])) \<and>
     (claimed_violations b' \<noteq> [] \<longrightarrow>
        (\<exists>es. safeParse b' = Inl es \<and>
           (if \<exists>fs. b' = JObj fs
            then \<forall>q \<in> set (claimed_violations b'). errors_at q (format es) \<noteq> []
            else es = [(invalid_type, [])])))"
proof (intro conjI allI impI)
  fix es
  assume "safeParse b' = Inl es"
  with assms show "post_handler env sys prov b =
      (\<lparr>status = 400,
        body = [(lit ''error'', Js (JStr (lit ''BAD_REQUEST''))),
                (lit ''details'', Details (format es))]\<rparr>,
       [])"
    by (simp add: post_handler_invalid res_json_def json_field_def)
next
  assume v: "claimed_violations b' \<noteq> []"
  show "\<exists>es. safeParse b' = Inl es \<and>
      (if \<exists>fs. b' = JObj fs
       then \<forall>q \<in> set (claimed_violations b'). errors_at q (format es) \<noteq> []
       else es = [(invalid_type, [])])"
  proof (cases "\<exists>fs. b' = JObj fs")
    case True
    then obtain fs where b': "b' = JObj fs"
      by blast
    from v obtain q0 where "q0 \<in> set (claimed_violations (JObj fs))"
      unfolding b' by (cases "claimed_violations (JObj fs)") auto
    from claimed_violation_reported [OF this] have "isl (safeParse (JObj fs))"
      by blast
    then have p: "safeParse (JObj fs) = Inl (issues_of (safeParse (JObj fs)))"
      by (rule isl_issues)
    have "errors_at q (format (issues_of (safeParse (JObj fs)))) \<noteq> []"
      if "q \<in> set (claimed_violations (JObj fs))" for q
      using claimed_violation_reported [OF that] by (blast dest: errors_at_format_nonempty)
    with p show ?thesis
      unfolding b' by (intro exI [of _ "issues_of (safeParse (JObj fs))"]) auto
  next
    case False
    then show ?thesis
      by (simp add: safeParse_not_object)
  qed
qed

theorem bad_request_400_witness:
  "claimed_violations (nullish ex_body_bad (JObj [])) =
     [[Key (lit ''messages''), Idx 0, Key (lit ''content'')],
      [Key (lit ''intent'')], [Key (lit ''maxOutputTokens'')], [Key (lit ''temperature'')]] \<and>
   post_handler ex_env ex_sys provider_hi_there ex_body_bad =
     (\<lparr>status = 400,
       body = [(lit ''error'', Js (JStr (lit ''BAD_REQUEST''))),
               (lit ''details'', Details (format ex_issues_bad))]\<rparr>,
      []) \<and>
   errors_at [Key (lit ''messages''), Idx 0, Key (lit ''content'')] (format ex_issues_bad) \<noteq> [] \<and>
   errors_at [Key (lit ''intent'')] (format ex_issues_bad) \<noteq> [] \<and>
   errors_at [Key (lit ''maxOutputTokens'')] (format ex_issues_bad) \<noteq> [] \<and>
   errors_at [Key (lit ''temperature'')] (format ex_issues_bad) \<noteq> []"
proof -
  have k: "GEMINI_API_KEY ex_env \<noteq> []"
    by (simp add: ex_env_key)
  have o: "\<exists>fs. nullish ex_body_bad (JObj []) = JObj fs"
    by (simp add: ex_body_bad_def nullish_def)
  from bad_request_400 [OF k refl, of ex_body_bad ex_sys provider_hi_there] o
  show ?thesis
    by (simp add: safeParse_bad claimed_violations_bad)
qed

text \<open>
  Claim C1 as stated fails without the key, where the empty object, whose \<open>messages\<close> is
  missing, gets 503; and for a body that is not an object, where the report of the empty
  array has one entry at the root and none for \<open>messages\<close>.
\<close>

theorem bad_request_counterexample:
  "claimed_violations (nullish (JObj []) (JObj [])) = [[Key (lit ''messages'')]] \<and>
   status (fst (post_handler ex_env_unset ex_sys provider_hi_there (JObj []))) = 503 \<and>
   claimed_violations (nullish (JArr []) (JObj [])) = [[Key (lit ''messages'')]] \<and>
   post_handler ex_env ex_sys provider_hi_there (JArr []) =
     (\<lparr>status = 400,
       body = [(lit ''error'', Js (JStr (lit ''BAD_REQUEST''))),
               (lit ''details'', Details (Fmt [invalid_type] []))]\<rparr>,
      []) \<and>
   errors_at [Key (lit ''messages'')] (Fmt [invalid_type] []) = []"
proof -
  have "safeParse (nullish (JArr []) (JObj [])) = Inl [(invalid_type, [])]"
    by (simp add: nullish_def safeParse_not_object)
  from post_handler_invalid [OF _ this, of ex_env ex_sys provider_hi_there]
  have "post_handler ex_env ex_sys provider_hi_there (JArr []) =
     (\<lparr>status = 400,
       body = [(lit ''error'', Js (JStr (lit ''BAD_REQUEST''))),
               (lit ''details'', Details (Fmt [invalid_type] []))]\<rparr>,
      [])"
    by (simp add: ex_env_key res_json_def json_field_def format_def)
  then show ?thesis
    by (simp add: post_handler_nokey ex_env_no_key res_json_def json_field_def nullish_def
        claimed_violations_def claimed_messages_def claimed_contents_def claimed_intent_def
        claimed_maxOutputTokens_def claimed_temperature_def)
qed

text \<open>
  Claim C2, amended. For a validated request with more than six messages before the final
  one, the history of every provider invocation the handler makes is the two synthetic
  turns followed by those of the last six messages before the final one whose content is
  not blank, in their order, each with role \<open>assistant\<close> mapped to \<open>model\<close> and any other
  role to \<open>user\<close>, and its text clamped to 4000 code units; when none of the six is blank
  these are exactly six turns, one for each of the six messages.
\<close>

theorem history_window:
  assumes "c \<in> set (snd (post_handler env sys prov b))"
    and "safeParse (nullish b (JObj [])) = Inr data"
    and "7 < length (messages data)"
  shows "history c =
       [\<lparr>t_role = lit ''user'', parts = [sys (intent data) (profile data)]\<rparr>,
        \<lparr>t_role = lit ''model'', parts = [lit ''Siap.'']\<rparr>] @
       map (\<lambda>m. \<lparr>t_role = (if role m = lit ''assistant'' then lit ''model'' else lit ''user''),
                  parts = [clampText (content m) 4000]\<rparr>)
         (filter (\<lambda>m. trim (content m) \<noteq> [])
            (take 6 (drop (length (messages data) - 7) (messages data)))) \<and>
     ((\<forall>m \<in> set (take 6 (drop (length (messages data) - 7) (messages data))).
          trim (content m) \<noteq> []) \<longrightarrow>
      drop 2 (history c) =
        map (\<lambda>m. \<lparr>t_role = (if role m = lit ''assistant'' then lit ''model'' else lit ''user''),
                   parts = [clampText (content m) 4000]\<rparr>)
          (take 6 (drop (length (messages data) - 7) (messages data))) \<and>
      length (drop 2 (history c)) = 6)"
proof -
  from post_handler_calls [OF assms(1)] assms(2) have c: "c = chat_call env sys data"
    by auto
  let ?ms = "messages data"
  have "drop (length (butlast ?ms) - 6) (butlast ?ms) = take 6 (drop (length ?ms - 7) ?ms)"
    using assms(3) by (simp add: butlast_conv_take drop_take)
  then have h: "history c =
       [\<lparr>t_role = lit ''user'', parts = [sys (intent data) (profile data)]\<rparr>,
        \<lparr>t_role = lit ''model'', parts = [lit ''Siap.'']\<rparr>] @
       map (\<lambda>m. \<lparr>t_role = (if role m = lit ''assistant'' then lit ''model'' else lit ''user''),
                  parts = [clampText (content m) 4000]\<rparr>)
         (filter (\<lambda>m. trim (content m) \<noteq> []) (take 6 (drop (length ?ms - 7) ?ms)))"
    by (simp add: c chat_call_def js_slice_butlast toGeminiHistory_6)
  have "length (take 6 (drop (length ?ms - 7) ?ms)) = 6"
    using assms(3) by simp
  with h show ?thesis
    by (auto simp: filter_id_conv)
qed

theorem history_window_witness:
  "history (chat_call ex_env ex_sys (ex_data_eight ''c'')) =
     [\<lparr>t_role = lit ''user'', parts = [lit ''system'']\<rparr>,
      \<lparr>t_role = lit ''model'', parts = [lit ''Siap.'']\<rparr>] @ ex_turns_full \<and>
   drop 2 (history (chat_call ex_env ex_sys (ex_data_eight ''c''))) = ex_turns_full \<and>
   length (drop 2 (history (chat_call ex_env ex_sys (ex_data_eight ''c'')))) = 6"
proof -
  have c: "chat_call ex_env ex_sys (ex_data_eight ''c'') \<in>
      set (snd (post_handler ex_env ex_sys provider_hi_there (ex_body_eight ''c'')))"
    by (simp add: eight_calls)
  have p: "safeParse (nullish (ex_body_eight ''c'') (JObj [])) = Inr (ex_data_eight ''c'')"
    by (simp add: safeParse_eight)
  have l: "7 < length (messages (ex_data_eight ''c''))"
    by (simp add: ex_data_eight_def ex_window_def)
  have w: "take 6 (drop (length (messages (ex_data_eight ''c'')) - 7)
      (messages (ex_data_eight ''c''))) = ex_window ''c''"
    by (simp add: ex_data_eight_def ex_window_def)
  have n: "\<forall>m \<in> set (ex_window ''c''). trim (content m) \<noteq> []"
    by (simp add: ex_window_def trim_letters)
  from history_window [OF c p l] n show ?thesis
    unfolding w
    by (simp add: ex_sys_def ex_data_eight_def)
       (simp add: ex_window_def ex_turns_full_def clamp_letters trim_letters)
qed

text \<open>
  Claim C2 as stated fails when one of the six messages is blank: of eight messages with
  the third one a single space, five turns follow the two synthetic ones, not six.
\<close>

theorem history_window_counterexample:
  "length (messages (ex_data_eight '' '')) = 8 \<and>
   safeParse (nullish (ex_body_eight '' '') (JObj [])) = Inr (ex_data_eight '' '') \<and>
   snd (post_handler ex_env ex_sys provider_hi_there (ex_body_eight '' '')) =
     [chat_call ex_env ex_sys (ex_data_eight '' '')] \<and>
   history (chat_call ex_env ex_sys (ex_data_eight '' '')) =
     [\<lparr>t_role = lit ''user'', parts = [lit ''system'']\<rparr>,
      \<lparr>t_role = lit ''model'', parts = [lit ''Siap.'']\<rparr>,
      \<lparr>t_role = lit ''model'', parts = [lit ''b'']\<rparr>,
      \<lparr>t_role = lit ''model'', parts = [lit ''d'']\<rparr>,
      \<lparr>t_role = lit ''user'', parts = [lit ''e'']\<rparr>,
      \<lparr>t_role = lit ''model'', parts = [lit ''f'']\<rparr>,
      \<lparr>t_role = lit ''user'', parts = [lit ''g'']\<rparr>] \<and>
   length (toGeminiHistory (js_slice 0 (Some (- 1)) (messages (ex_data_eight '' ''))) 6) = 5"
  by (simp add: safeParse_eight eight_calls ex_eight_history js_slice_butlast butlast_eight
      ex_window_history)
     (simp add: ex_data_eight_def ex_window_def ex_turns_blank_def toGeminiHistory_6
        trim_letters trim_examples)

text \<open>
  Claim C3. The clamping function returns a string of at most 4000 characters unchanged,
  and returns exactly the first 4000 characters of a longer one; it never fails. A
  character is a UTF-16 code unit, which is what the \<open>length\<close> and \<open>slice\<close> of a string
  count. The text sent as the current user turn is the clamped user turn, and the text of
  every turn of the history window is the clamped content of one of the messages.
\<close>

theorem clampText_4000:
  "(length s \<le> 4000 \<longrightarrow> clampText s 4000 = s) \<and>
   (4000 < length s \<longrightarrow>
      clampText s 4000 = take 4000 s \<and> length (clampText s 4000) = 4000) \<and>
   sent (chat_call env sys data) = clampText (user_turn data) 4000 \<and>
   (\<forall>t \<in> set (toGeminiHistory msgs keep).
      \<exists>m \<in> set msgs. parts t = [clampText (content m) 4000])"
proof -
  have "\<exists>m \<in> set msgs. parts t = [clampText (content m) 4000]"
    if "t \<in> set (toGeminiHistory msgs keep)" for t
    using that set_js_slice [of "- int keep" None msgs]
    by (auto simp: toGeminiHistory_def Let_def)
  then show ?thesis
    by (simp add: clampText_take chat_call_def)
qed

theorem clampText_4000_witness:
  "length (lit ''hello'') \<le> 4000 \<and> clampText (lit ''hello'') 4000 = lit ''hello'' \<and>
   4000 < length (replicate 4001 (0x61 :: 16 word)) \<and>
   clampText (replicate 4001 0x61) 4000 = replicate 4000 0x61 \<and>
   sent (chat_call ex_env ex_sys ex_data_hello) = lit ''hello'' \<and>
   (\<exists>m \<in> set (ex_window ''c'').
      parts \<lparr>t_role = lit ''model'', parts = [lit ''b'']\<rparr> = [clampText (content m) 4000])"
proof -
  note a = clampText_4000 [of "lit ''hello''" ex_env ex_sys ex_data_hello "ex_window ''c''" 6]
  note b = clampText_4000 [of "replicate 4001 0x61" ex_env ex_sys ex_data_hello "ex_window ''c''" 6]
  have "length (lit ''hello'') \<le> 4000"
    by (simp add: lit_def)
  with a have 1: "clampText (lit ''hello'') 4000 = lit ''hello''"
    and 2: "sent (chat_call ex_env ex_sys ex_data_hello) = clampText (user_turn ex_data_hello) 4000"
    and 3: "\<forall>t \<in> set (toGeminiHistory (ex_window ''c'') 6).
      \<exists>m \<in> set (ex_window ''c''). parts t = [clampText (content m) 4000]"
    by blast+
  from b have 4: "clampText (replicate 4001 0x61) 4000 = replicate 4000 (0x61 :: 16 word)"
    by simp
  have "\<lparr>t_role = lit ''model'', parts = [lit ''b'']\<rparr> \<in> set (toGeminiHistory (ex_window ''c'') 6)"
    by (simp add: ex_window_history ex_turns_full_def)
  with 3 have 5: "\<exists>m \<in> set (ex_window ''c'').
      parts \<lparr>t_role = lit ''model'', parts = [lit ''b'']\<rparr> = [clampText (content m) 4000]"
    by blast
  from 1 2 4 5 show ?thesis
    by (simp add: user_turn_hello) (simp add: lit_def)
qed

text \<open>
  Claim C4. For a validated request (the key is configured and the body passed the schema)
  whose last message has empty or whitespace-only content, the handler answers 200 with
  the canned greeting and makes no provider invocation.
\<close>

theorem blank_turn_greeting:
  assumes "GEMINI_API_KEY env \<noteq> []"
    and "safeParse (nullish b (JObj [])) = Inr data"
    and "trim (content (last (messages data))) = []"
  shows "post_handler env sys prov b =
     (\<lparr>status = 200, body = [(lit ''answer'', Js (JStr greeting))]\<rparr>, [])"
proof -
  from assms(3) have "trim (user_turn data) = []"
    by (simp add: user_turn_def)
  with assms(1,2) show ?thesis
    by (simp add: post_handler_greeting res_json_def json_field_def)
qed

theorem blank_turn_greeting_witness:
  "post_handler ex_env ex_sys provider_hi_there ex_body_blank =
     (\<lparr>status = 200, body = [(lit ''answer'', Js (JStr greeting))]\<rparr>, [])"
  using blank_turn_greeting [of ex_env ex_body_blank ex_data_blank ex_sys provider_hi_there]
  by (simp add: ex_env_key safeParse_blank ex_data_blank_def trim_examples)

text \<open>
  Claim C5. When no provider credential is configured (the variable is unset or empty),
  the handler answers 503 with the error \<open>GEMINI_API_KEY_MISSING\<close> whatever the request
  body and the provider are, and makes no provider invocation.
\<close>

theorem key_missing_503:
  assumes "env_GEMINI_API_KEY env = None \<or> env_GEMINI_API_KEY env = Some []"
  shows "post_handler env sys prov b =
     (\<lparr>status = 503,
       body = [(lit ''error'', Js (JStr (lit ''GEMINI_API_KEY_MISSING''))),
               (lit ''message'',
                  Js (JStr (lit ''Server AI belum dikonfigurasi. Hubungi admin.'')))]\<rparr>,
      [])"
proof -
  from assms have "GEMINI_API_KEY env = []"
    by (auto simp: GEMINI_API_KEY_def env_or_def)
  then show ?thesis
    by (simp add: post_handler_nokey res_json_def json_field_def)
qed

theorem key_missing_503_witness:
  "post_handler ex_env_unset ex_sys provider_hi_there ex_body_hello =
     (\<lparr>status = 503,
       body = [(lit ''error'', Js (JStr (lit ''GEMINI_API_KEY_MISSING''))),
               (lit ''message'',
                  Js (JStr (lit ''Server AI belum dikonfigurasi. Hubungi admin.'')))]\<rparr>,
      []) \<and>
   post_handler ex_env_empty ex_sys provider_hi_there (JArr []) =
     (\<lparr>status = 503,
       body = [(lit ''error'', Js (JStr (lit ''GEMINI_API_KEY_MISSING''))),
               (lit ''message'',
                  Js (JStr (lit ''Server AI belum dikonfigurasi. Hubungi admin.'')))]\<rparr>,
      [])"
  using key_missing_503 [of ex_env_unset ex_sys provider_hi_there ex_body_hello]
    key_missing_503 [of ex_env_empty ex_sys provider_hi_there "JArr []"]
  by (simp add: ex_env_unset_def ex_env_empty_def)

text \<open>
  Claim C6. Whenever a provider invocation made by the handler returns a text that is
  empty after trimming (or returns no text at all), the handler answers 502 with the
  error \<open>EMPTY_RESPONSE\<close> and a message, not 200.
\<close>

theorem empty_response_502:
  assumes "c \<in> set (snd (post_handler env sys prov b))"
    and "prov c = Returned r"
    and "trim (case r of Some t \<Rightarrow> t | None \<Rightarrow> []) = []"
  shows "fst (post_handler env sys prov b) =
     \<lparr>status = 502,
      body = [(lit ''error'', Js (JStr (lit ''EMPTY_RESPONSE''))),
              (lit ''message'', Js (JStr (lit ''AI tidak mengembalikan teks.'')))]\<rparr>"
proof -
  from post_handler_calls [OF assms(1)] obtain data where
    "GEMINI_API_KEY env \<noteq> []" "safeParse (nullish b (JObj [])) = Inr data"
    "trim (user_turn data) \<noteq> []" "c = chat_call env sys data"
    by blast
  with assms(2,3) show ?thesis
    by (simp add: post_handler_returned res_json_def json_field_def)
qed

theorem empty_response_502_witness:
  "fst (post_handler ex_env ex_sys provider_spaces ex_body_hello) =
     \<lparr>status = 502,
      body = [(lit ''error'', Js (JStr (lit ''EMPTY_RESPONSE''))),
              (lit ''message'', Js (JStr (lit ''AI tidak mengembalikan teks.'')))]\<rparr> \<and>
   fst (post_handler ex_env ex_sys provider_no_response ex_body_hello) =
     \<lparr>status = 502,
      body = [(lit ''error'', Js (JStr (lit ''EMPTY_RESPONSE''))),
              (lit ''message'', Js (JStr (lit ''AI tidak mengembalikan teks.'')))]\<rparr>"
  using
    empty_response_502 [of "chat_call ex_env ex_sys ex_data_hello" ex_env ex_sys
      provider_spaces ex_body_hello "Some (lit ''  '')"]
    empty_response_502 [of "chat_call ex_env ex_sys ex_data_hello" ex_env ex_sys
      provider_no_response ex_body_hello None]
  by (simp add: hello_calls provider_spaces_def provider_no_response_def trim_examples)

text \<open>
  Claim C7, amended. Whenever a provider invocation made by the handler returns a text that
  is not empty after trimming, the handler answers 200 with the body \<open>{ answer: t }\<close>, where
  \<open>t\<close> is the returned text trimmed. For the minimal request with the provider answering
  \<open>"hi there"\<close>, the body is \<open>{ answer: "hi there" }\<close> (the witness below).
\<close>

theorem nonblank_text_answer:
  assumes "c \<in> set (snd (post_handler env sys prov b))"
    and "prov c = Returned (Some t)"
    and "trim t \<noteq> []"
  shows "fst (post_handler env sys prov b) =
     \<lparr>status = 200, body = [(lit ''answer'', Js (JStr (trim t)))]\<rparr>"
proof -
  from post_handler_calls [OF assms(1)] obtain data where
    "GEMINI_API_KEY env \<noteq> []" "safeParse (nullish b (JObj [])) = Inr data"
    "trim (user_turn data) \<noteq> []" "c = chat_call env sys data"
    by blast
  with assms(2,3) show ?thesis
    by (simp add: post_handler_returned res_json_def json_field_def)
qed

theorem nonblank_text_answer_witness:
  "fst (post_handler ex_env ex_sys provider_hi_there ex_body_hello) =
     \<lparr>status = 200, body = [(lit ''answer'', Js (JStr (lit ''hi there'')))]\<rparr>"
  using nonblank_text_answer [of "chat_call ex_env ex_sys ex_data_hello" ex_env ex_sys
      provider_hi_there ex_body_hello "lit ''hi there''"]
  by (simp add: hello_calls provider_hi_there_def trim_examples)

text \<open>
  Claim C7 as stated fails for a returned text that is not empty but blank: two spaces are
  a non-empty text, and the answer is 502, not 200 with the trimmed text.
\<close>

theorem nonblank_text_counterexample:
  "lit ''  '' \<noteq> [] \<and>
   snd (post_handler ex_env ex_sys provider_spaces ex_body_hello) =
     [chat_call ex_env ex_sys ex_data_hello] \<and>
   provider_spaces (chat_call ex_env ex_sys ex_data_hello) = Returned (Some (lit ''  '')) \<and>
   fst (post_handler ex_env ex_sys provider_spaces ex_body_hello) \<noteq>
     \<lparr>status = 200, body = [(lit ''answer'', Js (JStr (trim (lit ''  ''))))]\<rparr> \<and>
   status (fst (post_handler ex_env ex_sys provider_spaces ex_body_hello)) = 502"
  by (simp add: hello_calls provider_spaces_def trim_examples res_json_def json_field_def
      post_handler_returned [OF _ safeParse_hello] ex_env_key user_turn_hello)

text \<open>
  Claim C8, amended. Whenever a provider invocation made by the handler throws, the handler
  answers 502 with a body of exactly these fields: \<open>error\<close>, equal to \<open>AI_ERROR\<close>; \<open>code\<close>,
  which is the error's \<open>code\<close> when that is truthy, else the error's \<open>status\<close> when the
  error has one, else left out; and \<open>message\<close>, which is the error's \<open>message\<close> when that is
  truthy, else the fixed fallback. Each value is as \<open>JSON.stringify\<close> writes it (a number
  that is not finite as \<open>null\<close>). No other field of the error reaches the body.
\<close>

theorem provider_error_502:
  assumes "c \<in> set (snd (post_handler env sys prov b))"
    and "prov c = Thrown err"
  shows "fst (post_handler env sys prov b) =
     \<lparr>status = 502,
      body =
        [(lit ''error'', Js (JStr (lit ''AI_ERROR'')))] @
        (if truthy (field err (lit ''code''))
         then [(lit ''code'', Js (to_json (field err (lit ''code''))))]
         else if field err (lit ''status'') = JUndefined then []
         else [(lit ''code'', Js (to_json (field err (lit ''status''))))]) @
        [(lit ''message'',
            Js (if truthy (field err (lit ''message''))
                then to_json (field err (lit ''message''))
                else JStr (lit ''Gagal meminta jawaban dari AI.'')))]\<rparr>"
proof -
  from post_handler_calls [OF assms(1)] obtain data where
    "GEMINI_API_KEY env \<noteq> []" "safeParse (nullish b (JObj [])) = Inr data"
    "trim (user_turn data) \<noteq> []" "c = chat_call env sys data"
    by blast
  moreover have "truthy v \<Longrightarrow> v \<noteq> JUndefined" for v
    by auto
  ultimately show ?thesis
    using assms(2) by (auto simp: post_handler_thrown res_json_def json_field_def js_or_def)
qed

theorem provider_error_502_witness:
  "fst (post_handler ex_env ex_sys provider_throws_status ex_body_hello) =
     \<lparr>status = 502,
      body = [(lit ''error'', Js (JStr (lit ''AI_ERROR''))),
              (lit ''code'', Js (JNum (Finite 429))),
              (lit ''message'', Js (JStr (lit ''Too Many Requests'')))]\<rparr> \<and>
   fst (post_handler ex_env ex_sys provider_throws_infinite ex_body_hello) =
     \<lparr>status = 502,
      body = [(lit ''error'', Js (JStr (lit ''AI_ERROR''))),
              (lit ''code'', Js JNull),
              (lit ''message'', Js (JObj [(lit ''retry'', JNull)]))]\<rparr>"
  using provider_error_502 [of "chat_call ex_env ex_sys ex_data_hello" ex_env ex_sys
      provider_throws_status ex_body_hello ex_err_status]
    provider_error_502 [of "chat_call ex_env ex_sys ex_data_hello" ex_env ex_sys
      provider_throws_infinite ex_body_hello ex_err_infinite]
  by (simp add: hello_calls provider_throws_status_def ex_err_status_def
      provider_throws_infinite_def ex_err_infinite_def)

text \<open>
  Claim C8 as stated fails for an error whose \<open>code\<close> is present but falsy: with \<open>code: 0\<close>
  and \<open>status: 503\<close> the body's \<open>code\<close> is 503, the status, although \<open>code\<close> is not absent.
\<close>

theorem provider_error_counterexample:
  "field ex_err_code0 (lit ''code'') = JNum (Finite 0) \<and>
   field ex_err_code0 (lit ''status'') = JNum (Finite 503) \<and>
   snd (post_handler ex_env ex_sys provider_throws_code0 ex_body_hello) =
     [chat_call ex_env ex_sys ex_data_hello] \<and>
   provider_throws_code0 (chat_call ex_env ex_sys ex_data_hello) = Thrown ex_err_code0 \<and>
   fst (post_handler ex_env ex_sys provider_throws_code0 ex_body_hello) =
     \<lparr>status = 502,
      body = [(lit ''error'', Js (JStr (lit ''AI_ERROR''))),
              (lit ''code'', Js (JNum (Finite 503))),
              (lit ''message'', Js (JStr (lit ''Service Unavailable'')))]\<rparr>"
  by (simp add: hello_calls provider_throws_code0_def ex_err_code0_def trim_examples res_json_def json_field_def
      post_handler_thrown [OF _ safeParse_hello] ex_env_key user_turn_hello js_or_def)

text \<open>
  Claim C9. \<open>toGeminiHistory\<close> takes the last six messages first and drops the blank ones
  afterwards. When \<open>w\<close> is the six messages right before the final one and one of them is
  blank, the window is the non-blank messages of \<open>w\<close>, has fewer than six turns, and does
  not depend on the earlier messages, none of which is taken instead; the history the
  handler forwards is the two synthetic turns followed by that window.
\<close>

theorem window_selected_before_filter:
  assumes "length w = 6" and "\<exists>m \<in> set w. trim (content m) = []"
  shows "toGeminiHistory (earlier @ w) 6 =
       map (\<lambda>m. \<lparr>t_role = (if role m = lit ''assistant'' then lit ''model'' else lit ''user''),
                  parts = [clampText (content m) 4000]\<rparr>)
         (filter (\<lambda>m. trim (content m) \<noteq> []) w) \<and>
     length (toGeminiHistory (earlier @ w) 6) < 6 \<and>
     toGeminiHistory (earlier @ w) 6 = toGeminiHistory w 6 \<and>
     (messages data = earlier @ w @ [final] \<longrightarrow>
        history (chat_call env sys data) =
          [\<lparr>t_role = lit ''user'', parts = [sys (intent data) (profile data)]\<rparr>,
           \<lparr>t_role = lit ''model'', parts = [lit ''Siap.'']\<rparr>] @
          toGeminiHistory w 6)"
proof -
  have len: "length (filter (\<lambda>m. trim (content m) \<noteq> []) w) < length w"
    using assms(2) by (auto intro: length_filter_less)
  have "butlast (earlier @ w @ [final]) = earlier @ w"
    by (simp add: butlast_append)
  with len show ?thesis
    using assms(1) by (auto simp: toGeminiHistory_6 chat_call_def js_slice_butlast)
qed

theorem window_selected_before_filter_witness:
  "toGeminiHistory ([\<lparr>role = lit ''user'', content = lit ''a''\<rparr>] @ ex_window '' '') 6 =
     ex_turns_blank \<and>
   length ex_turns_blank < 6 \<and>
   history (chat_call ex_env ex_sys (ex_data_eight '' '')) =
     [\<lparr>t_role = lit ''user'', parts = [lit ''system'']\<rparr>,
      \<lparr>t_role = lit ''model'', parts = [lit ''Siap.'']\<rparr>] @ ex_turns_blank"
proof -
  note w = window_selected_before_filter [OF ex_window_blank,
      of "[\<lparr>role = lit ''user'', content = lit ''a''\<rparr>]"
      "ex_data_eight '' ''" "\<lparr>role = lit ''user'', content = lit ''h''\<rparr>" ex_env ex_sys]
  from w have "toGeminiHistory ([\<lparr>role = lit ''user'', content = lit ''a''\<rparr>] @ ex_window '' '') 6 =
      toGeminiHistory (ex_window '' '') 6"
    by blast
  moreover from w have "history (chat_call ex_env ex_sys (ex_data_eight '' '')) =
     [\<lparr>t_role = lit ''user'',
       parts = [ex_sys (intent (ex_data_eight '' '')) (profile (ex_data_eight '' ''))]\<rparr>,
      \<lparr>t_role = lit ''model'', parts = [lit ''Siap.'']\<rparr>] @
     toGeminiHistory (ex_window '' '') 6"
    by (simp add: ex_data_eight_def)
  ultimately show ?thesis
    by (simp add: ex_window_history ex_sys_def) (simp add: ex_turns_blank_def)
qed

text \<open>
  Claim C10. The minimum-length check of \<open>content\<close> counts whitespace: a message whose content
  is a non-empty whitespace-only string \<open>s\<close> passes \<open>MsgSchema\<close>, the request
  \<open>{ messages: [{ content: s }] }\<close> passes validation, and whenever a request whose last
  message has this content passes validation, the handler (with the key configured)
  answers with the canned greeting and makes no provider invocation.
\<close>

theorem whitespace_content_accepted:
  assumes "s \<noteq> []" and "trim s = []" and "GEMINI_API_KEY env \<noteq> []"
  shows "MsgSchema p (JObj [(lit ''content'', JStr s)]) = Inr \<lparr>role = lit ''user'', content = s\<rparr> \<and>
     safeParse (JObj [(lit ''messages'', JArr [JObj [(lit ''content'', JStr s)]])]) =
       Inr \<lparr>messages = [\<lparr>role = lit ''user'', content = s\<rparr>], intent = lit ''news'',
            profile = None, maxOutputTokens = None, temperature = None\<rparr> \<and>
     ((\<exists>data. safeParse (JObj fs) = Inr data) \<and>
      map_of fs (lit ''messages'') = Some (JArr (xs @ [x])) \<and>
      field x (lit ''content'') = JStr s \<longrightarrow>
      post_handler env sys prov (JObj fs) =
        (\<lparr>status = 200, body = [(lit ''answer'', Js (JStr greeting))]\<rparr>, []))"
proof -
  from assms(1) have len: "\<not> length s < 1"
    by (cases s) simp_all
  have a: "MsgSchema p (JObj [(lit ''content'', JStr s)]) =
      Inr \<lparr>role = lit ''user'', content = s\<rparr>" for p
    using len by (simp add: MsgSchema_def ap_def zdefault_def zstring_def zstring_min_def)
  have b: "safeParse (JObj [(lit ''messages'', JArr [JObj [(lit ''content'', JStr s)]])]) =
       Inr \<lparr>messages = [\<lparr>role = lit ''user'', content = s\<rparr>], intent = lit ''news'',
            profile = None, maxOutputTokens = None, temperature = None\<rparr>"
    by (simp add: safeParse_def AskSchema_def zmessages_def a)
       (simp add: ap_def zdefault_def zoptional_def zenum_def)
  have c: "post_handler env sys prov (JObj fs) =
        (\<lparr>status = 200, body = [(lit ''answer'', Js (JStr greeting))]\<rparr>, [])"
    if p: "safeParse (JObj fs) = Inr data"
      and m: "map_of fs (lit ''messages'') = Some (JArr (xs @ [x]))"
      and x: "field x (lit ''content'') = JStr s" for data
  proof -
    from safeParse_messages [OF p] m
    have "zmessages [Key (lit ''messages'')] (JArr (xs @ [x])) = Inr (messages data)"
      by simp
    from zmessages_last [OF this] x have "user_turn data = s"
      by (simp add: user_turn_def)
    with assms(2,3) p show ?thesis
      by (simp add: post_handler_greeting nullish_def res_json_def json_field_def)
  qed
  from a b c show ?thesis
    by blast
qed

theorem whitespace_content_accepted_witness:
  "safeParse ex_body_blank = Inr ex_data_blank \<and>
   post_handler ex_env ex_sys provider_hi_there ex_body_blank =
     (\<lparr>status = 200, body = [(lit ''answer'', Js (JStr greeting))]\<rparr>, [])"
proof -
  have k: "GEMINI_API_KEY ex_env \<noteq> []"
    by (simp add: ex_env_key)
  have s: "lit '' '' \<noteq> []" "trim (lit '' '') = []"
    by (simp_all add: trim_examples)
  note w = whitespace_content_accepted [OF s k,
      of "[]" "[(lit ''messages'', JArr [JObj [(lit ''content'', JStr (lit '' ''))]])]"
      "[]" "JObj [(lit ''content'', JStr (lit '' ''))]" ex_sys provider_hi_there]
  from w have p: "safeParse ex_body_blank = Inr ex_data_blank"
    by (simp add: ex_body_blank_def ex_data_blank_def)
  with w show ?thesis
    by (simp add: ex_body_blank_def)
qed

end
